theory Spec2Isabelle
  imports Main "HOL-Library.Word"
begin

unbundle bit_operations_syntax

section \<open>Program state\<close>

text \<open>
  The program is C++ for a 64-bit target (\<^verbatim>\<open>allocator.cpp\<close> computes
  \<^verbatim>\<open>MIN_BLOCK_SIZE\<close> as 24 from \<^verbatim>\<open>sizeof(void *) == 8\<close>). Pointers and
  \<^verbatim>\<open>size_t\<close> are 64-bit words, \<^verbatim>\<open>int\<close> and \<^verbatim>\<open>unsigned int\<close> are 32-bit
  words; a signed value is read with \<open>sint\<close>. \<^verbatim>\<open>nullptr\<close> is the word 0 and
  \<^verbatim>\<open>(void *)-1\<close> is the word with all bits set.

  The state gathers the file-level variables of both translation units and the
  bytes of memory: \<^verbatim>\<open>mem_heap\<close>, \<^verbatim>\<open>mem_brk\<close>, \<^verbatim>\<open>mem_max_addr\<close> of
  \<^verbatim>\<open>memlib.cpp\<close>, \<^verbatim>\<open>heap_listp\<close> and \<^verbatim>\<open>free_listp\<close> of
  \<^verbatim>\<open>allocator.cpp\<close>, and the byte store the macros read and write.
\<close>

type_synonym addr = "64 word"
type_synonym c_size_t = "64 word"
type_synonym c_int = "32 word"
type_synonym c_uint = "32 word"

record state =
  mem_heap :: addr
  mem_brk :: addr
  mem_max_addr :: addr
  heap_listp :: addr
  free_listp :: addr
  mem :: "addr \<Rightarrow> 8 word"

text \<open>All five variables are zero-initialised statics; memory holds whatever it holds.\<close>

definition boot :: "(addr \<Rightarrow> 8 word) \<Rightarrow> state" where
  "boot m = \<lparr>mem_heap = 0, mem_brk = 0, mem_max_addr = 0,
             heap_listp = 0, free_listp = 0, mem = m\<rparr>"

section \<open>memlib.cpp\<close>

definition MAX_HEAP :: int where
  "MAX_HEAP = 8 * 1024 * 1024"

text \<open>
  \<^verbatim>\<open>mem_init\<close> takes the arena from the system allocator. The address the system
  returned is the parameter \<open>base\<close>; on a null result the program exits, which is
  \<open>None\<close>.
\<close>

definition mem_init :: "addr \<Rightarrow> state \<Rightarrow> state option" where
  "mem_init base s =
     (if base = 0 then None
      else Some (s\<lparr>mem_heap := base, mem_brk := base,
                   mem_max_addr := base + word_of_int MAX_HEAP\<rparr>))"

text \<open>
  \<^verbatim>\<open>mem_sbrk(int incr)\<close>: the test \<^verbatim>\<open>incr < 0\<close> is signed, the pointer comparison is
  the unsigned order on addresses, and \<^verbatim>\<open>mem_brk + incr\<close> sign-extends \<open>incr\<close>. The
  message printed to stderr on failure is not part of the state.
\<close>

definition mem_sbrk :: "state \<Rightarrow> c_int \<Rightarrow> addr \<times> state" where
  "mem_sbrk s incr =
     (let old_brk = mem_brk s in
      if sint incr < 0 \<or> mem_brk s + scast incr > mem_max_addr s
      then (- 1, s)
      else (old_brk, s\<lparr>mem_brk := mem_brk s + scast incr\<rparr>))"

definition mem_heap_lo :: "state \<Rightarrow> addr" where
  "mem_heap_lo s = mem_heap s"

definition mem_heap_hi :: "state \<Rightarrow> addr" where
  "mem_heap_hi s = mem_brk s - 1"

definition mem_heapsize :: "state \<Rightarrow> c_size_t" where
  "mem_heapsize s = mem_brk s - mem_heap s"

text \<open>
  The arena as \<^verbatim>\<open>mem_init\<close> leaves it and \<^verbatim>\<open>mem_sbrk\<close> keeps it: the break lies
  between the two ends, the ends are \<open>MAX_HEAP\<close> bytes apart, and the region sits low
  enough in the address space that the break plus any non-negative \<^verbatim>\<open>int\<close> is still
  an address (C leaves a pointer computed past that undefined).
\<close>

definition mem_wf :: "state \<Rightarrow> bool" where
  "mem_wf s \<longleftrightarrow>
     uint (mem_heap s) \<le> uint (mem_brk s) \<and>
     uint (mem_brk s) \<le> uint (mem_max_addr s) \<and>
     uint (mem_max_addr s) = uint (mem_heap s) + MAX_HEAP \<and>
     uint (mem_max_addr s) + 2 ^ 31 \<le> 2 ^ 64"

section \<open>allocator.cpp: constants and macros\<close>

definition WSIZE :: c_size_t where
  "WSIZE = 4"

definition DSIZE :: c_size_t where
  "DSIZE = 8"

definition CHUNKSIZE :: c_size_t where
  "CHUNKSIZE = push_bit 12 1"

text \<open>\<^verbatim>\<open>DSIZE + 2 * sizeof(void *)\<close> with 8-byte pointers.\<close>

definition MIN_BLOCK_SIZE :: c_size_t where
  "MIN_BLOCK_SIZE = DSIZE + 2 * 8"

definition PACK :: "c_size_t \<Rightarrow> c_size_t \<Rightarrow> c_size_t" where
  "PACK sz alloc = sz OR alloc"

text \<open>
  \<^verbatim>\<open>GET\<close> and \<^verbatim>\<open>PUT\<close> move an \<^verbatim>\<open>unsigned int\<close>: four bytes, least significant
  first. \<^verbatim>\<open>PUT\<close> of a \<^verbatim>\<open>size_t\<close> value stores its low 32 bits.
\<close>

definition GET :: "state \<Rightarrow> addr \<Rightarrow> c_uint" where
  "GET s p = ucast (mem s p) OR push_bit 8 (ucast (mem s (p + 1)))
             OR push_bit 16 (ucast (mem s (p + 2))) OR push_bit 24 (ucast (mem s (p + 3)))"

definition PUT :: "state \<Rightarrow> addr \<Rightarrow> c_size_t \<Rightarrow> state" where
  "PUT s p val =
     s\<lparr>mem := (mem s)(p := ucast val, p + 1 := ucast (drop_bit 8 val),
                        p + 2 := ucast (drop_bit 16 val), p + 3 := ucast (drop_bit 24 val))\<rparr>"

definition GET_SIZE :: "state \<Rightarrow> addr \<Rightarrow> c_uint" where
  "GET_SIZE s p = GET s p AND NOT 7"

definition GET_ALLOC :: "state \<Rightarrow> addr \<Rightarrow> c_uint" where
  "GET_ALLOC s p = GET s p AND 1"

definition HDRP :: "addr \<Rightarrow> addr" where
  "HDRP bp = bp - WSIZE"

definition FTRP :: "state \<Rightarrow> addr \<Rightarrow> addr" where
  "FTRP s bp = bp + ucast (GET_SIZE s (HDRP bp)) - DSIZE"

definition NEXT_BLKP :: "state \<Rightarrow> addr \<Rightarrow> addr" where
  "NEXT_BLKP s bp = bp + ucast (GET_SIZE s (HDRP bp))"

definition PREV_BLKP :: "state \<Rightarrow> addr \<Rightarrow> addr" where
  "PREV_BLKP s bp = bp - ucast (GET_SIZE s (bp - DSIZE))"

text \<open>The link fields of a free block are pointers: eight bytes each.\<close>

definition GET_PTR :: "state \<Rightarrow> addr \<Rightarrow> addr" where
  "GET_PTR s p = ucast (GET s p) OR push_bit 32 (ucast (GET s (p + 4)))"

definition GET_NEXT_FREE :: "state \<Rightarrow> addr \<Rightarrow> addr" where
  "GET_NEXT_FREE s bp = GET_PTR s bp"

definition GET_PREV_FREE :: "state \<Rightarrow> addr \<Rightarrow> addr" where
  "GET_PREV_FREE s bp = GET_PTR s (bp + 8)"

text \<open>\<^verbatim>\<open>memcpy(dst, src, n)\<close> on regions that do not overlap.\<close>

definition memcpy :: "state \<Rightarrow> addr \<Rightarrow> addr \<Rightarrow> c_size_t \<Rightarrow> state" where
  "memcpy s dst src n =
     s\<lparr>mem := (\<lambda>a. if a - dst < n then mem s (src + (a - dst)) else mem s a)\<rparr>"

section \<open>allocator.cpp: functions\<close>

text \<open>
  Every function below is translated from its body in \<^verbatim>\<open>allocator.cpp\<close>. The bodies
  of \<^verbatim>\<open>mm_init\<close>, \<^verbatim>\<open>mm_malloc\<close>, \<^verbatim>\<open>mm_free\<close>, \<^verbatim>\<open>extend_heap\<close>,
  \<^verbatim>\<open>coalesce\<close>, \<^verbatim>\<open>find_fit\<close> and \<^verbatim>\<open>mm_check\<close> hold comments and a
  \<^verbatim>\<open>return\<close> only; \<^verbatim>\<open>mm_realloc\<close> is written out in full. The parameter
  \<^verbatim>\<open>size\<close> of the source is \<open>sz\<close> here.
\<close>

text \<open>\<^verbatim>\<open>mm_init\<close>, lines 171-192: the one statement is \<^verbatim>\<open>return -1;\<close>.\<close>

definition mm_init :: "state \<Rightarrow> c_int \<times> state" where
  "mm_init s = (- 1, s)"

text \<open>
  \<^verbatim>\<open>mm_malloc\<close>, lines 212-233: three locals are declared and never assigned; the one
  statement is \<^verbatim>\<open>return nullptr;\<close>.
\<close>

definition mm_malloc :: "state \<Rightarrow> c_size_t \<Rightarrow> addr \<times> state" where
  "mm_malloc s sz = (0, s)"

text \<open>\<^verbatim>\<open>mm_free\<close>, lines 253-265: no statement.\<close>

definition mm_free :: "state \<Rightarrow> addr \<Rightarrow> state" where
  "mm_free s ptr = s"

text \<open>\<^verbatim>\<open>mm_realloc\<close>, lines 276-288.\<close>

definition mm_realloc :: "state \<Rightarrow> addr \<Rightarrow> c_size_t \<Rightarrow> addr \<times> state" where
  "mm_realloc s ptr sz =
     (if ptr = 0 then mm_malloc s sz
      else if sz = 0 then (0, mm_free s ptr)
      else
        (case mm_malloc s sz of (newptr, s1) \<Rightarrow>
           if newptr = 0 then (0, s1)
           else
             (let copy_size = ucast (GET_SIZE s1 (HDRP ptr)) - DSIZE;
                  copy_size = (if sz < copy_size then sz else copy_size);
                  s2 = memcpy s1 newptr ptr copy_size;
                  s3 = mm_free s2 ptr
              in (newptr, s3))))"

text \<open>\<^verbatim>\<open>extend_heap\<close>, lines 312-332: \<^verbatim>\<open>return nullptr;\<close>.\<close>

definition extend_heap :: "state \<Rightarrow> c_size_t \<Rightarrow> addr \<times> state" where
  "extend_heap s words = (0, s)"

text \<open>\<^verbatim>\<open>coalesce\<close>, lines 362-398: \<^verbatim>\<open>return bp;\<close>.\<close>

definition coalesce :: "state \<Rightarrow> addr \<Rightarrow> addr \<times> state" where
  "coalesce s bp = (bp, s)"


text \<open>\<^verbatim>\<open>mm_check\<close>, lines 497-500: \<^verbatim>\<open>return 0;\<close>.\<close>

definition mm_check :: "state \<Rightarrow> c_int" where
  "mm_check s = 0"

section \<open>Concrete states\<close>

text \<open>A fresh arena: \<^verbatim>\<open>mem_init\<close> on the booted program, the system having returned
  address \<open>0x10000\<close> and memory being all zero.\<close>

definition fresh_arena :: state where
  "fresh_arena = \<lparr>mem_heap = 0x10000, mem_brk = 0x10000, mem_max_addr = 0x810000,
                   heap_listp = 0, free_listp = 0, mem = (\<lambda>_. 0)\<rparr>"

text \<open>
  An arena a client has grown by 40 bytes with \<^verbatim>\<open>mem_sbrk\<close> and filled with six word
  stores in the layout the header comment of \<^verbatim>\<open>mm_init\<close> draws, with one 24-byte
  block after the prologue: pad at \<open>0x10000\<close>, prologue header and footer at
  \<open>0x10004\<close> and \<open>0x10008\<close>, the block's header at \<open>0x1000C\<close>, its payload at
  \<open>0x10010\<close>, its footer at \<open>0x10020\<close>, the epilogue header at \<open>0x10024\<close>, the
  break at \<open>0x10028\<close>. \<open>heap_layout hdr ftr\<close> writes the block's two tags. The
  allocator's own two pointers are null, as they are in every run.
\<close>

definition heap_layout :: "c_size_t \<Rightarrow> c_size_t \<Rightarrow> state" where
  "heap_layout hdr ftr =
     (let s0 = fresh_arena\<lparr>mem_brk := 0x10028\<rparr>;
          s1 = PUT s0 0x10000 0;
          s2 = PUT s1 0x10004 (PACK DSIZE 1);
          s3 = PUT s2 0x10008 (PACK DSIZE 1);
          s4 = PUT s3 0x1000C hdr;
          s5 = PUT s4 0x10020 ftr;
          s6 = PUT s5 0x10024 (PACK 0 1)
      in s6)"

text \<open>The block's header says allocated, its footer says free.\<close>

definition heap_bad_footer :: state where
  "heap_bad_footer = heap_layout (PACK 24 1) (PACK 24 0)"

text \<open>The block is free and the free list is empty.\<close>

definition heap_lost_block :: state where
  "heap_lost_block = heap_layout (PACK 24 0) (PACK 24 0)"

text \<open>
  A state no run produces, built by hand to try the free-list walk on a list that is not
  empty: the block is free and \<^verbatim>\<open>free_listp\<close> is set to it; its links are null.
\<close>

definition heap_one_free :: state where
  "heap_one_free = (heap_layout (PACK 24 0) (PACK 24 0))\<lparr>free_listp := 0x10010\<rparr>"

section \<open>Runs of the program\<close>

text \<open>
  The states a run can be in. The program starts with its statics zero and any memory;
  from there a client may call \<^verbatim>\<open>mem_init\<close> (whatever address the system hands out),
  \<^verbatim>\<open>mem_sbrk\<close>, \<^verbatim>\<open>mm_init\<close>, \<^verbatim>\<open>mm_malloc\<close>, \<^verbatim>\<open>mm_free\<close> and
  \<^verbatim>\<open>mm_realloc\<close> with any arguments, and may store any word anywhere in memory.
  \<^verbatim>\<open>mm_check\<close> has no effect on the state. The two pointers \<^verbatim>\<open>heap_listp\<close> and
  \<^verbatim>\<open>free_listp\<close> are \<^verbatim>\<open>static\<close> in \<^verbatim>\<open>allocator.cpp\<close>: only the functions of
  that file can assign them.
\<close>

inductive reach :: "state \<Rightarrow> bool" where
  reach_boot: "reach (boot m)"
| reach_mem_init: "reach s \<Longrightarrow> mem_init base s = Some s' \<Longrightarrow> reach s'"
| reach_mem_sbrk: "reach s \<Longrightarrow> reach (snd (mem_sbrk s incr))"
| reach_mm_init: "reach s \<Longrightarrow> reach (snd (mm_init s))"
| reach_mm_malloc: "reach s \<Longrightarrow> reach (snd (mm_malloc s sz))"
| reach_mm_free: "reach s \<Longrightarrow> reach (mm_free s ptr)"
| reach_mm_realloc: "reach s \<Longrightarrow> reach (snd (mm_realloc s ptr sz))"
| reach_store: "reach s \<Longrightarrow> reach (PUT s p v)"

section \<open>First fit, as specified\<close>

text \<open>
  The walk the specification and the header comment of \<^verbatim>\<open>find_fit\<close> describe:
  \<^verbatim>\<open>for (bp = free_listp; bp != nullptr; bp = GET_NEXT_FREE(bp))
       if (GET_SIZE(HDRP(bp)) >= asize) return bp;\<close>
  and null after the loop. The walk is given a number of steps, since the links of a
  corrupted list may form a cycle: \<open>Some bp\<close> is the answer reached within that many
  steps (null when the list ran out), \<open>None\<close> says the steps ran out first.
\<close>

fun first_fit_walk :: "nat \<Rightarrow> state \<Rightarrow> c_size_t \<Rightarrow> addr \<Rightarrow> addr option" where
  "first_fit_walk 0 s asize bp = None"
| "first_fit_walk (Suc k) s asize bp =
     (if bp = 0 then Some 0
      else if asize \<le> ucast (GET_SIZE s (HDRP bp)) then Some bp
      else first_fit_walk k s asize (GET_NEXT_FREE s bp))"

section \<open>The arena\<close>

lemma fresh_arena_mem_init: "mem_init 0x10000 (boot (\<lambda>_. 0)) = Some fresh_arena"
  by (simp add: mem_init_def boot_def fresh_arena_def MAX_HEAP_def)

lemma fresh_arena_wf: "mem_wf fresh_arena"
  by (simp add: mem_wf_def fresh_arena_def MAX_HEAP_def)

lemma sint_c_int_bounds: "sint (i :: c_int) < 2 ^ 31" "- (2 ^ 31) \<le> sint i"
  using sint_lt [of i] sint_ge [of i] by simp_all

lemma uint_sentinel: "uint (- 1 :: addr) = 2 ^ 64 - 1"
  by (simp add: unsigned_minus_1_eq_mask mask_eq_exp_minus_1)

lemma uint_scast_nonneg:
  assumes "0 \<le> sint (i :: c_int)"
  shows "uint (scast i :: addr) = sint i"
proof -
  have "sint i < 2 ^ 64" using sint_c_int_bounds(1) [of i] by simp
  with assms have "take_bit LENGTH(64) (sint i) = sint i"
    by (intro take_bit_int_eq_self) simp_all
  then show ?thesis
    by (simp only: scast_eq uint_word_of_int_eq)
qed

lemma uint_brk_add:
  assumes "mem_wf s" "0 \<le> sint (i :: c_int)"
  shows "uint (mem_brk s + scast i) = uint (mem_brk s) + sint i"
proof -
  have "uint (mem_brk s) + sint i < 2 ^ 64"
    using assms sint_c_int_bounds(1) [of i] by (simp add: mem_wf_def)
  then show ?thesis
    using assms(2) by (simp add: uint_word_ariths uint_scast_nonneg)
qed

lemma uint_heapsize:
  assumes "mem_wf s"
  shows "uint (mem_heapsize s) = uint (mem_brk s) - uint (mem_heap s)"
  using assms unfolding mem_heapsize_def mem_wf_def
  by (simp add: uint_sub_lem [THEN iffD1])

text \<open>The test of \<^verbatim>\<open>mem_sbrk\<close>, read on the heap size.\<close>

lemma mem_sbrk_test:
  assumes "mem_wf s"
  shows "(sint (incr :: c_int) < 0 \<or> mem_brk s + scast incr > mem_max_addr s) \<longleftrightarrow>
         (sint incr < 0 \<or> MAX_HEAP < uint (mem_heapsize s) + sint incr)"
proof (cases "sint incr < 0")
  case True
  then show ?thesis by simp
next
  case False
  then have nn: "0 \<le> sint incr" by simp
  have "mem_brk s + scast incr > mem_max_addr s \<longleftrightarrow>
        uint (mem_max_addr s) < uint (mem_brk s) + sint incr"
    by (simp add: word_less_def uint_brk_add [OF assms nn])
  also have "\<dots> \<longleftrightarrow> MAX_HEAP < uint (mem_heapsize s) + sint incr"
    unfolding uint_heapsize [OF assms] using assms unfolding mem_wf_def by linarith
  finally show ?thesis using False by simp
qed

lemma mem_init_wf:
  assumes "mem_init base s = Some s'" "uint base + MAX_HEAP + 2 ^ 31 \<le> 2 ^ 64"
  shows "mem_wf s'"
proof -
  have "uint (base + word_of_int MAX_HEAP) = uint base + MAX_HEAP"
    using assms(2) by (simp add: uint_word_ariths uint_word_of_int MAX_HEAP_def)
  with assms show ?thesis
    by (auto simp: mem_init_def mem_wf_def split: if_splits) (simp add: MAX_HEAP_def)
qed

lemma mem_sbrk_wf:
  assumes "mem_wf s"
  shows "mem_wf (snd (mem_sbrk s incr))"
proof (cases "sint incr < 0 \<or> mem_brk s + scast incr > mem_max_addr s")
  case True
  then show ?thesis using assms by (simp add: mem_sbrk_def)
next
  case False
  then have nn: "0 \<le> sint incr" and le: "mem_brk s + scast incr \<le> mem_max_addr s"
    by (simp_all add: not_less)
  from le have "uint (mem_brk s) + sint incr \<le> uint (mem_max_addr s)"
    by (simp add: word_le_def uint_brk_add [OF assms nn])
  with False nn assms show ?thesis
    by (simp add: mem_sbrk_def Let_def mem_wf_def uint_brk_add [OF assms nn])
qed

text \<open>
  C9. \<^verbatim>\<open>mem_sbrk(n)\<close> returns the old break and moves the break up by \<open>n\<close> bytes
  exactly when \<open>n\<close> is not negative and the heap grown by \<open>n\<close> is no larger than
  \<open>MAX_HEAP\<close> (8 MiB); for a negative \<open>n\<close>, and for an \<open>n\<close> that would take the
  heap past the cap, it returns the sentinel, which is not the old break, and the break
  stays.
\<close>

theorem mem_sbrk_advances_iff_room:
  assumes "mem_wf s"
  shows "(0 \<le> sint (incr :: c_int) \<and> uint (mem_heapsize s) + sint incr \<le> MAX_HEAP \<longrightarrow>
            mem_sbrk s incr = (mem_brk s, s\<lparr>mem_brk := mem_brk s + scast incr\<rparr>) \<and>
            uint (mem_brk (snd (mem_sbrk s incr))) = uint (mem_brk s) + sint incr \<and>
            uint (mem_heapsize (snd (mem_sbrk s incr))) = uint (mem_heapsize s) + sint incr) \<and>
         (sint incr < 0 \<or> MAX_HEAP < uint (mem_heapsize s) + sint incr \<longrightarrow>
            fst (mem_sbrk s incr) = - 1 \<and>
            fst (mem_sbrk s incr) \<noteq> mem_brk s \<and>
            mem_brk (snd (mem_sbrk s incr)) = mem_brk s)"
proof (intro conjI impI)
  assume ok: "0 \<le> sint incr \<and> uint (mem_heapsize s) + sint incr \<le> MAX_HEAP"
  then have pass: "\<not> (sint incr < 0 \<or> mem_brk s + scast incr > mem_max_addr s)"
    unfolding mem_sbrk_test [OF assms] by linarith
  then show eq: "mem_sbrk s incr = (mem_brk s, s\<lparr>mem_brk := mem_brk s + scast incr\<rparr>)"
    by (simp add: mem_sbrk_def Let_def)
  from ok show brk: "uint (mem_brk (snd (mem_sbrk s incr))) = uint (mem_brk s) + sint incr"
    by (simp add: eq uint_brk_add [OF assms])
  have "mem_wf (snd (mem_sbrk s incr))" by (rule mem_sbrk_wf [OF assms])
  then have "uint (mem_heapsize (snd (mem_sbrk s incr))) =
             uint (mem_brk (snd (mem_sbrk s incr))) - uint (mem_heap (snd (mem_sbrk s incr)))"
    by (rule uint_heapsize)
  then show "uint (mem_heapsize (snd (mem_sbrk s incr))) = uint (mem_heapsize s) + sint incr"
    by (simp add: brk uint_heapsize [OF assms]) (simp add: eq)
next
  assume "sint incr < 0 \<or> MAX_HEAP < uint (mem_heapsize s) + sint incr"
  then have fail: "sint incr < 0 \<or> mem_brk s + scast incr > mem_max_addr s"
    unfolding mem_sbrk_test [OF assms] .
  then show "fst (mem_sbrk s incr) = - 1" by (simp add: mem_sbrk_def)
  from fail show "mem_brk (snd (mem_sbrk s incr)) = mem_brk s" by (simp add: mem_sbrk_def)
  have "uint (mem_brk s) < 2 ^ 64 - 1" using assms by (simp add: mem_wf_def)
  then have "mem_brk s \<noteq> - 1" by (auto simp: word_uint_eq_iff uint_sentinel)
  with fail show "fst (mem_sbrk s incr) \<noteq> mem_brk s" by (auto simp: mem_sbrk_def)
qed


theorem mem_sbrk_advances_iff_room_witness:
  "mem_wf fresh_arena \<and>
   mem_sbrk fresh_arena 16 = (0x10000, fresh_arena\<lparr>mem_brk := 0x10010\<rparr>) \<and>
   uint (mem_heapsize (snd (mem_sbrk fresh_arena 16))) = 16 \<and>
   fst (mem_sbrk fresh_arena (- 1)) = - 1 \<and>
   fst (mem_sbrk fresh_arena 0x800001) = - 1 \<and>
   mem_brk (snd (mem_sbrk fresh_arena 0x800001)) = 0x10000"
proof -
  have size0: "uint (mem_heapsize fresh_arena) = 0"
    by (simp add: mem_heapsize_def fresh_arena_def)
  have room: "0 \<le> sint (16 :: c_int) \<and>
              uint (mem_heapsize fresh_arena) + sint (16 :: c_int) \<le> MAX_HEAP"
    by (simp add: size0 MAX_HEAP_def)
  have neg: "sint (- 1 :: c_int) < 0 \<or>
             MAX_HEAP < uint (mem_heapsize fresh_arena) + sint (- 1 :: c_int)"
    by simp
  have big: "sint (0x800001 :: c_int) < 0 \<or>
             MAX_HEAP < uint (mem_heapsize fresh_arena) + sint (0x800001 :: c_int)"
    by (simp add: size0 MAX_HEAP_def)
  from mem_sbrk_advances_iff_room [of fresh_arena 16, OF fresh_arena_wf] room
  have a: "mem_sbrk fresh_arena 16 = (mem_brk fresh_arena, fresh_arena\<lparr>mem_brk := mem_brk fresh_arena + scast (16 :: c_int)\<rparr>)"
    and b: "uint (mem_heapsize (snd (mem_sbrk fresh_arena 16))) =
            uint (mem_heapsize fresh_arena) + sint (16 :: c_int)"
    by blast+
  from mem_sbrk_advances_iff_room [of fresh_arena "- 1", OF fresh_arena_wf] neg
  have c: "fst (mem_sbrk fresh_arena (- 1)) = - 1" by blast
  from mem_sbrk_advances_iff_room [of fresh_arena "0x800001", OF fresh_arena_wf] big
  have d: "fst (mem_sbrk fresh_arena 0x800001) = - 1"
    and e: "mem_brk (snd (mem_sbrk fresh_arena 0x800001)) = mem_brk fresh_arena"
    by blast+
  have f: "mem_brk fresh_arena = 0x10000" by (simp add: fresh_arena_def)
  from a have a': "mem_sbrk fresh_arena 16 = (0x10000, fresh_arena\<lparr>mem_brk := 0x10010\<rparr>)"
    by (simp add: f)
  from b have b': "uint (mem_heapsize (snd (mem_sbrk fresh_arena 16))) = 16"
    by (simp add: size0)
  from fresh_arena_wf a' b' c d e f show ?thesis by simp
qed

text \<open>
  C10. When \<^verbatim>\<open>mem_sbrk(incr)\<close> fails, that is for a negative \<open>incr\<close> or one that would
  take the heap past 8 MiB, the whole state is as it was, so \<^verbatim>\<open>mem_heap_hi\<close> and
  \<^verbatim>\<open>mem_heapsize\<close> answer as before; the value returned is \<^verbatim>\<open>(void *)-1\<close>, and that is
  no address of the arena: every address \<open>a\<close> from the first byte of the arena up to and
  including the one past its last byte differs from it.
\<close>

theorem mem_sbrk_failure_keeps_break:
  assumes "mem_wf s"
    and "sint (incr :: c_int) < 0 \<or> MAX_HEAP < uint (mem_heapsize s) + sint incr"
    and "mem_heap s \<le> a" and "a \<le> mem_max_addr s"
  shows "snd (mem_sbrk s incr) = s \<and>
         mem_heap_hi (snd (mem_sbrk s incr)) = mem_heap_hi s \<and>
         mem_heapsize (snd (mem_sbrk s incr)) = mem_heapsize s \<and>
         fst (mem_sbrk s incr) = - 1 \<and>
         fst (mem_sbrk s incr) \<noteq> a"
proof -
  from assms(2) have fail: "sint incr < 0 \<or> mem_brk s + scast incr > mem_max_addr s"
    unfolding mem_sbrk_test [OF assms(1)] .
  then have r: "mem_sbrk s incr = (- 1, s)"
    by (simp add: mem_sbrk_def)
  have "uint a \<le> uint (mem_max_addr s)"
    using assms(4) by (simp add: word_le_def)
  then have "uint a < 2 ^ 64 - 1"
    using assms(1) by (simp add: mem_wf_def)
  then have "a \<noteq> - 1"
    by (auto simp: word_uint_eq_iff uint_sentinel)
  with r show ?thesis by simp
qed

theorem mem_sbrk_failure_keeps_break_witness:
  "mem_wf (heap_layout 25 25) \<and>
   mem_heap_hi (snd (mem_sbrk (heap_layout 25 25) (- 8))) = 0x10027 \<and>
   mem_heapsize (snd (mem_sbrk (heap_layout 25 25) (- 8))) = 0x28 \<and>
   mem_heap_hi (snd (mem_sbrk (heap_layout 25 25) 0x7FFFE0)) = 0x10027 \<and>
   mem_heapsize (snd (mem_sbrk (heap_layout 25 25) 0x7FFFE0)) = 0x28 \<and>
   fst (mem_sbrk (heap_layout 25 25) (- 8)) = - 1 \<and>
   fst (mem_sbrk (heap_layout 25 25) 0x7FFFE0) = - 1"
proof -
  let ?h = "heap_layout 25 25"
  have fields: "mem_heap ?h = 0x10000" "mem_brk ?h = 0x10028" "mem_max_addr ?h = 0x810000"
    by (simp_all add: heap_layout_def fresh_arena_def PUT_def Let_def)
  have wf: "mem_wf ?h"
    by (simp add: mem_wf_def fields MAX_HEAP_def)
  have neg: "sint (- 8 :: c_int) < 0 \<or> MAX_HEAP < uint (mem_heapsize ?h) + sint (- 8 :: c_int)"
    by simp
  have big: "sint (0x7FFFE0 :: c_int) < 0 \<or>
             MAX_HEAP < uint (mem_heapsize ?h) + sint (0x7FFFE0 :: c_int)"
    by (simp add: mem_heapsize_def fields MAX_HEAP_def)
  have lo: "mem_heap ?h \<le> 0x10027" and hi: "(0x10027 :: addr) \<le> mem_max_addr ?h"
    by (simp_all add: fields)
  have hh: "mem_heap_hi ?h = 0x10027" and hs: "mem_heapsize ?h = 0x28"
    by (simp_all add: mem_heap_hi_def mem_heapsize_def fields)
  from mem_sbrk_failure_keeps_break [OF wf neg lo hi]
       mem_sbrk_failure_keeps_break [OF wf big lo hi] wf hh hs
  show ?thesis by simp
qed

section \<open>The allocator\<close>

lemmas layout_defs =
  heap_layout_def fresh_arena_def PUT_def GET_def GET_SIZE_def GET_ALLOC_def HDRP_def FTRP_def
  PACK_def WSIZE_def DSIZE_def Let_def

lemma heap_one_free_tags:
  "GET heap_one_free (HDRP 0x10010) = 24"
  "GET heap_one_free (FTRP heap_one_free 0x10010) = 24"
  "GET_SIZE heap_one_free (HDRP 0x10010) = 24"
  "GET_ALLOC heap_one_free (HDRP 0x10010) = 0"
  by (simp_all add: heap_one_free_def layout_defs)


lemma heap_one_free_links:
  "free_listp heap_one_free = 0x10010"
  "GET_NEXT_FREE heap_one_free 0x10010 = 0"
  "GET_PREV_FREE heap_one_free 0x10010 = 0"
  by (simp_all add: heap_one_free_def GET_NEXT_FREE_def GET_PREV_FREE_def GET_PTR_def layout_defs)

text \<open>Whatever it is given, \<^verbatim>\<open>mm_realloc\<close> returns null and leaves the state as it was.\<close>

lemma mm_realloc_null: "mm_realloc s ptr sz = (0, s)"
  by (simp add: mm_realloc_def mm_malloc_def mm_free_def)

text \<open>\<^verbatim>\<open>mm_init\<close> reports failure in every state, \<^verbatim>\<open>mm_malloc\<close> returns null for
  every size, \<^verbatim>\<open>mm_free\<close> changes nothing; none of them touches the state.\<close>

lemma mm_init_fails: "mm_init s = (- 1, s)"
  by (simp add: mm_init_def)

lemma mm_malloc_null: "mm_malloc s sz = (0, s)"
  by (simp add: mm_malloc_def)

lemma mm_free_noop: "mm_free s ptr = s"
  by (simp add: mm_free_def)

text \<open>In every state of every run the heap anchor and the free-list head are null.\<close>

lemma reach_null:
  assumes "reach s"
  shows "heap_listp s = 0 \<and> free_listp s = 0"
  using assms
proof (induction rule: reach.induct)
  case (reach_boot m)
  show ?case by (simp add: boot_def)
next
  case (reach_mem_init s base s')
  then show ?case by (auto simp: mem_init_def split: if_splits)
next
  case (reach_mem_sbrk s incr)
  then show ?case by (simp add: mem_sbrk_def Let_def)
next
  case (reach_mm_init s)
  then show ?case by (simp add: mm_init_fails)
next
  case (reach_mm_malloc s sz)
  then show ?case by (simp add: mm_malloc_null)
next
  case (reach_mm_free s ptr)
  then show ?case by (simp add: mm_free_noop)
next
  case (reach_mm_realloc s ptr sz)
  then show ?case by (simp add: mm_realloc_null)
next
  case (reach_store s p v)
  then show ?case by (simp add: PUT_def)
qed

lemma reach_fresh_arena: "reach fresh_arena"
  by (rule reach_mem_init [OF reach_boot fresh_arena_mem_init])

text \<open>The laid-out heaps arise in a run: \<^verbatim>\<open>mem_init\<close>, \<^verbatim>\<open>mem_sbrk(40)\<close>, six stores.\<close>

lemma reach_heap_layout: "reach (heap_layout hdr ftr)"
proof -
  have "snd (mem_sbrk fresh_arena 40) = fresh_arena\<lparr>mem_brk := 0x10028\<rparr>"
    by (simp add: mem_sbrk_def fresh_arena_def Let_def)
  with reach_mem_sbrk [OF reach_fresh_arena, of 40]
  have "reach (fresh_arena\<lparr>mem_brk := 0x10028\<rparr>)" by simp
  then show ?thesis
    unfolding heap_layout_def Let_def by (intro reach_store)
qed

text \<open>The hand-built state is not one of them.\<close>

lemma heap_one_free_not_reached: "\<not> reach heap_one_free"
  using reach_null [of heap_one_free] by (auto simp: heap_one_free_links)

text \<open>On the hand-built list the walk finds the head, in one step.\<close>

lemma first_fit_walk_finds_head:
  "first_fit_walk (Suc k) heap_one_free 16 (free_listp heap_one_free) = Some 0x10010"
  by (simp add: heap_one_free_links heap_one_free_tags)

text \<open>
  C1. \<^verbatim>\<open>mm_init\<close> on a fresh arena: the arena has room for both extensions the claim
  names (16 bytes, then \<^verbatim>\<open>CHUNKSIZE\<close> bytes: \<^verbatim>\<open>mem_sbrk\<close> grants each), and
  \<^verbatim>\<open>mm_init\<close> returns -1 all the same, having extended nothing and written nothing.
\<close>

theorem mm_init_fresh_arena_fails:
  "mem_init 0x10000 (boot (\<lambda>_. 0)) = Some fresh_arena \<and>
   mem_sbrk fresh_arena 16 = (0x10000, fresh_arena\<lparr>mem_brk := 0x10010\<rparr>) \<and>
   mem_sbrk (fresh_arena\<lparr>mem_brk := 0x10010\<rparr>) (ucast CHUNKSIZE)
     = (0x10010, fresh_arena\<lparr>mem_brk := 0x11010\<rparr>) \<and>
   mm_init fresh_arena = (- 1, fresh_arena)"
  by (simp add: fresh_arena_mem_init mm_init_def)
    (simp add: mem_sbrk_def fresh_arena_def CHUNKSIZE_def Let_def)

text \<open>
  C3. In every state \<^verbatim>\<open>mm_malloc(0)\<close> returns null and the state it leaves is the state
  it found: the break, the memory and the allocator's two pointers are untouched.
\<close>

theorem mm_malloc_zero: "fst (mm_malloc s 0) = 0 \<and> snd (mm_malloc s 0) = s"
  by (simp add: mm_malloc_def)



text \<open>C7. \<^verbatim>\<open>mm_realloc(nullptr, n)\<close> is \<^verbatim>\<open>mm_malloc(n)\<close>: the same pointer and the
  same state.\<close>

theorem mm_realloc_nullptr_is_malloc: "mm_realloc s 0 n = mm_malloc s n"
  by (simp add: mm_realloc_def)

text \<open>
  C8, as stated, fails. Two heaps of a run (\<open>reach_heap_layout\<close>) break the documented
  invariants: in the first the block's header (\<open>24 | 1\<close>) differs from its footer
  (\<open>24 | 0\<close>); in the second the block is marked free and the free list is empty.
  \<^verbatim>\<open>mm_check\<close> returns 0 on both.
\<close>

theorem mm_check_accepts_broken_heaps:
  "GET heap_bad_footer (HDRP 0x10010) = 25 \<and>
   GET heap_bad_footer (FTRP heap_bad_footer 0x10010) = 24 \<and>
   GET heap_bad_footer (HDRP 0x10010) \<noteq> GET heap_bad_footer (FTRP heap_bad_footer 0x10010) \<and>
   mm_check heap_bad_footer = 0 \<and>
   GET_ALLOC heap_lost_block (HDRP 0x10010) = 0 \<and>
   GET_SIZE heap_lost_block (HDRP 0x10010) = 24 \<and>
   free_listp heap_lost_block = 0 \<and>
   mm_check heap_lost_block = 0"
  by (simp add: mm_check_def heap_bad_footer_def heap_lost_block_def layout_defs)

text \<open>
  C8, amended. \<^verbatim>\<open>mm_check\<close> is the optional hook of the header file, left without
  checks: it returns 0 on every heap state, so on every state that satisfies the
  documented invariants, and it reports no violation.
\<close>

theorem mm_check_returns_zero: "mm_check s = 0"
  by (simp add: mm_check_def)

end
